theory Spec2Isabelle
  imports Main "HOL-Library.Word"
begin

unbundle bit_operations_syntax

section \<open>Integrity check and repair of the block database (visor/db.go)\<close>

type_synonym byte = "8 word"
type_synonym uint64 = "64 word"

subsection \<open>The fault tracker: corruptedBlocks\<close>

text \<open>
  \<^verbatim>\<open>type corruptedBlocks struct { v map[uint64]struct{}; lock sync.Mutex }\<close>
  The map is a set of sequence numbers. The mutex serialises the calls; a finite
  sequence of calls is modelled as the sequence of their effects on \<open>v\<close>.
\<close>

record corruptedBlocks =
  v :: "uint64 \<rightharpoonup> unit"

definition newCorruptedBlocks :: corruptedBlocks where
  "newCorruptedBlocks = \<lparr>v = Map.empty\<rparr>"

definition Store :: "corruptedBlocks \<Rightarrow> uint64 \<Rightarrow> corruptedBlocks" where
  "Store cb seq = cb\<lparr>v := (v cb)(seq \<mapsto> ())\<rparr>"

text \<open>
  Go's \<^verbatim>\<open>for k := range m\<close> over a map visits every key once, in an order the
  language leaves open: \<open>map_range m ks\<close> holds for every order \<open>ks\<close> the loop may take.
\<close>

definition map_range :: "('k \<rightharpoonup> 'x) \<Rightarrow> 'k list \<Rightarrow> bool" where
  "map_range m ks \<longleftrightarrow> distinct ks \<and> set ks = dom m"

text \<open>
  \<^verbatim>\<open>var seqs []uint64; for seq := range cb.v { seqs = append(seqs, seq) }; return seqs\<close>
\<close>

inductive BlockSeqs :: "corruptedBlocks \<Rightarrow> uint64 list \<Rightarrow> bool" where
  "map_range (v cb) ks \<Longrightarrow> BlockSeqs cb (foldl (\<lambda>seqs seq. seqs @ [seq]) [] ks)"

subsection \<open>Errors\<close>

text \<open>
  Go's \<^verbatim>\<open>error\<close> values. The type switches of the file tell three dynamic types apart:
  \<^verbatim>\<open>blockdb.ErrMissingSignature\<close>, \<^verbatim>\<open>historydb.ErrHistoryDBCorrupted\<close> and
  \<^verbatim>\<open>ErrCorruptDB\<close>, which embeds the original error. An error of any other type
  (\<^verbatim>\<open>errors.New\<close>, \<^verbatim>\<open>fmt.Errorf\<close>, an error of the storage engine) is an
  \<open>ErrorString\<close>. The nil error is \<open>None\<close> of \<open>error option\<close>.
\<close>

datatype error =
    ErrMissingSignature string
  | ErrHistoryDBCorrupted string
  | ErrCorruptDB error
  | ErrorString string

text \<open>The \<^verbatim>\<open>Error()\<close> method, which \<^verbatim>\<open>%v\<close> prints.\<close>

fun Error :: "error \<Rightarrow> string" where
  "Error (ErrMissingSignature m) = m"
| "Error (ErrHistoryDBCorrupted m) = m"
| "Error (ErrCorruptDB e) = Error e"
| "Error (ErrorString m) = m"

subsection \<open>The world the functions act on\<close>

text \<open>
  \<^verbatim>\<open>coin.SignedBlock\<close> is a block with its signature; \<^verbatim>\<open>Blockchain\<close> is built by
  \<^verbatim>\<open>NewBlockchain(db, BlockchainConfig{Pubkey: pubkey})\<close>. A \<^verbatim>\<open>*dbutil.DB\<close> handle has
  a path and a mode; the content of the store it gives access to is in the world.
\<close>

record 'b SignedBlock =
  Block :: 'b
  Sig :: "byte list"

record Blockchain =
  cfg_Pubkey :: "byte list"

record DB =
  db_Path :: string
  db_IsReadOnly :: bool

record bolt_Options =
  Timeout :: nat
  ReadOnly :: bool

text \<open>
  Every call that leaves the file is recorded in a trace, in the order made.
\<close>

datatype 'b event =
    EvView
  | EvNewBlockchain
  | EvWalkChain nat
  | EvUpdate
  | EvErase
  | EvHeadSeq
  | EvQuit bool
  | EvGetSignedBlockBySeq uint64
  | EvParseBlock 'b
  | EvCommit
  | EvRollback
  | EvIsReadOnly
  | EvPath
  | EvClose
  | EvOsOpen string
  | EvIoCopy string
  | EvFileClose string
  | EvRename string string
  | EvBoltOpen string nat bolt_Options

text \<open>
  \<open>store\<close> is the logical content of the open database (of a type \<open>'s\<close> the storage
  engine owns), \<open>files\<close> the file system, \<open>polls\<close> the number of times the \<^verbatim>\<open>quit\<close>
  channel has been polled.
\<close>

record ('s, 'b) world =
  store :: 's
  files :: "string \<rightharpoonup> byte list"
  polls :: nat
  trace :: "'b event list"

text \<open>
  The collaborators, which live outside this file (the storage engine, the chain
  accessor, the history index, the operating system), are parameters: what each call
  returns on a given store. \<open>quit_closed k\<close> tells whether the \<open>k\<close>-th poll of the
  \<^verbatim>\<open>quit\<close> channel finds it signalled.
\<close>

record ('s, 'b) env =
  quit_closed :: "nat \<Rightarrow> bool"
  db_begin_read :: "'s \<Rightarrow> error option"
  db_begin_write :: "'s \<Rightarrow> error option"
  db_commit :: "'s \<Rightarrow> error option"
  dbutil_Exists_BlocksBkt :: "'s \<Rightarrow> bool"
  NewBlockchain_result :: "byte list \<Rightarrow> 's \<Rightarrow> error option \<times> 's"
  bc_WalkChain :: "Blockchain \<Rightarrow> nat \<Rightarrow> ('s \<Rightarrow> 'b SignedBlock \<Rightarrow> error option) \<Rightarrow> 's \<Rightarrow> error option"
  bc_VerifySignature :: "Blockchain \<Rightarrow> 'b SignedBlock \<Rightarrow> error option"
  bc_HeadSeq :: "Blockchain \<Rightarrow> 's \<Rightarrow> uint64 \<times> bool \<times> error option"
  bc_GetSignedBlockBySeq :: "Blockchain \<Rightarrow> 's \<Rightarrow> uint64 \<Rightarrow> error + 'b SignedBlock"
  history_Verify :: "'s \<Rightarrow> 'b SignedBlock \<Rightarrow> error option"
  history_Erase :: "'s \<Rightarrow> error + 's"
  history_ParseBlock :: "'s \<Rightarrow> 'b \<Rightarrow> error + 's"
  db_Close_result :: "'s \<Rightarrow> error option"
  os_Open_fault :: "string \<Rightarrow> error option"
  io_Copy_fault :: "string \<Rightarrow> error option"
  os_Rename_fault :: "string \<Rightarrow> string \<Rightarrow> error option"
  bolt_Open_result ::
    "(string \<rightharpoonup> byte list) \<Rightarrow> string \<Rightarrow> nat \<Rightarrow> bolt_Options \<Rightarrow> error + (string \<rightharpoonup> byte list) \<times> 's"

definition emit :: "'b event \<Rightarrow> ('s, 'b) world \<Rightarrow> ('s, 'b) world" where
  "emit ev w = w\<lparr>trace := trace w @ [ev]\<rparr>"

subsection \<open>Transactions of the storage engine\<close>

text \<open>
  Modelled from the spec: \<^verbatim>\<open>dbutil.DB.View\<close> is missing from the sources. The spec's
  interface is \<^verbatim>\<open>Handle.View(name, fn) -> error\<close>, a read transaction: when the
  transaction cannot be started the error is returned and \<open>fn\<close> does not run; otherwise
  \<open>fn\<close> runs on the store and its error is the result. \<open>a\<close> is the variable the closure
  captures.
\<close>

definition View ::
  "('s, 'b) env \<Rightarrow> ('s \<Rightarrow> 'a \<Rightarrow> error option \<times> 'a) \<Rightarrow> 'a \<Rightarrow> ('s, 'b) world
     \<Rightarrow> error option \<times> 'a \<times> ('s, 'b) world" where
  "View env fn a w =
     (case db_begin_read env (store w) of
        Some e \<Rightarrow> (Some e, a, emit EvView w)
      | None \<Rightarrow> (case fn (store w) a of (r, a') \<Rightarrow> (r, a', emit EvView w)))"

text \<open>
  Modelled from the spec: \<^verbatim>\<open>dbutil.DB.Update\<close> is missing from the sources. The spec's
  interface is \<^verbatim>\<open>Handle.Update(name, fn) -> error\<close>, a write transaction: a failure of
  \<open>fn\<close> aborts the transaction and is surfaced, the store keeping its former content;
  when \<open>fn\<close> returns no error the transaction commits what \<open>fn\<close> wrote. Starting and
  committing can fail, and then nothing is written. \<open>fn\<close> may not return (\<open>None\<close>).
\<close>

definition Update ::
  "('s, 'b) env \<Rightarrow> (('s, 'b) world \<Rightarrow> (error option \<times> ('s, 'b) world) option) \<Rightarrow> ('s, 'b) world
     \<Rightarrow> (error option \<times> ('s, 'b) world) option" where
  "Update env fn w =
     (case db_begin_write env (store w) of
        Some e \<Rightarrow> Some (Some e, emit EvUpdate w)
      | None \<Rightarrow>
          (case fn (emit EvUpdate w) of
             None \<Rightarrow> None
           | Some (Some e, tx) \<Rightarrow> Some (Some e, emit EvRollback (tx\<lparr>store := store w\<rparr>))
           | Some (None, tx) \<Rightarrow>
               (case db_commit env (store tx) of
                  Some e \<Rightarrow> Some (Some e, emit EvCommit (tx\<lparr>store := store w\<rparr>))
                | None \<Rightarrow> Some (None, emit EvCommit tx))))"

subsection \<open>Calls on the collaborators\<close>

definition Quit :: "('s, 'b) env \<Rightarrow> ('s, 'b) world \<Rightarrow> bool \<times> ('s, 'b) world" where
  "Quit env w =
     (quit_closed env (polls w),
      emit (EvQuit (quit_closed env (polls w))) (w\<lparr>polls := Suc (polls w)\<rparr>))"

definition NewBlockchain ::
  "('s, 'b) env \<Rightarrow> byte list \<Rightarrow> ('s, 'b) world \<Rightarrow> (error + Blockchain) \<times> ('s, 'b) world" where
  "NewBlockchain env pubkey w =
     (case NewBlockchain_result env pubkey (store w) of
        (Some e, s) \<Rightarrow> (Inl e, emit EvNewBlockchain (w\<lparr>store := s\<rparr>))
      | (None, s) \<Rightarrow> (Inr \<lparr>cfg_Pubkey = pubkey\<rparr>, emit EvNewBlockchain (w\<lparr>store := s\<rparr>)))"

definition WalkChain ::
  "('s, 'b) env \<Rightarrow> Blockchain \<Rightarrow> nat \<Rightarrow> ('s \<Rightarrow> 'b SignedBlock \<Rightarrow> error option) \<Rightarrow> ('s, 'b) world
     \<Rightarrow> error option \<times> ('s, 'b) world" where
  "WalkChain env bc workers f w = (bc_WalkChain env bc workers f (store w), emit (EvWalkChain workers) w)"

definition Erase :: "('s, 'b) env \<Rightarrow> ('s, 'b) world \<Rightarrow> error option \<times> ('s, 'b) world" where
  "Erase env tx =
     (case history_Erase env (store tx) of
        Inl e \<Rightarrow> (Some e, emit EvErase tx)
      | Inr s \<Rightarrow> (None, emit EvErase (tx\<lparr>store := s\<rparr>)))"

definition HeadSeq ::
  "('s, 'b) env \<Rightarrow> Blockchain \<Rightarrow> ('s, 'b) world \<Rightarrow> (uint64 \<times> bool \<times> error option) \<times> ('s, 'b) world" where
  "HeadSeq env bc tx = (bc_HeadSeq env bc (store tx), emit EvHeadSeq tx)"

definition GetSignedBlockBySeq ::
  "('s, 'b) env \<Rightarrow> Blockchain \<Rightarrow> ('s, 'b) world \<Rightarrow> uint64
     \<Rightarrow> (error + 'b SignedBlock) \<times> ('s, 'b) world" where
  "GetSignedBlockBySeq env bc tx i =
     (bc_GetSignedBlockBySeq env bc (store tx) i, emit (EvGetSignedBlockBySeq i) tx)"

definition ParseBlock ::
  "('s, 'b) env \<Rightarrow> ('s, 'b) world \<Rightarrow> 'b \<Rightarrow> error option \<times> ('s, 'b) world" where
  "ParseBlock env tx b =
     (case history_ParseBlock env (store tx) b of
        Inl e \<Rightarrow> (Some e, emit (EvParseBlock b) tx)
      | Inr s \<Rightarrow> (None, emit (EvParseBlock b) (tx\<lparr>store := s\<rparr>)))"

subsection \<open>rebuildCorruptDB\<close>

text \<open>
  \<^verbatim>\<open>for i := uint64(0); i <= headSeq; i++ { select { case <-quit: return nil; default: ... } }\<close>
  The counter is a 64-bit word and \<open>i + 1\<close> wraps. The loop need not end, so the result is
  an option: \<open>None\<close> is a loop that never returns.
\<close>

partial_function (option) rebuildCorruptDB_loop ::
  "('s, 'b) env \<Rightarrow> Blockchain \<Rightarrow> uint64 \<Rightarrow> uint64 \<Rightarrow> ('s, 'b) world
     \<Rightarrow> (error option \<times> ('s, 'b) world) option" where
  "rebuildCorruptDB_loop env bc headSeq i tx =
     (if i \<le> headSeq then
        (case Quit env tx of
           (signalled, tx1) \<Rightarrow>
             if signalled then Some (None, tx1)
             else
               (case GetSignedBlockBySeq env bc tx1 i of
                  (Inl e, tx2) \<Rightarrow> Some (Some e, tx2)
                | (Inr b, tx2) \<Rightarrow>
                    (case ParseBlock env tx2 (Block b) of
                       (Some e, tx3) \<Rightarrow> Some (Some e, tx3)
                     | (None, tx3) \<Rightarrow> rebuildCorruptDB_loop env bc headSeq (i + 1) tx3)))
      else Some (None, tx))"

definition rebuildCorruptDB_body ::
  "('s, 'b) env \<Rightarrow> Blockchain \<Rightarrow> ('s, 'b) world \<Rightarrow> (error option \<times> ('s, 'b) world) option" where
  "rebuildCorruptDB_body env bc tx =
     (case Erase env tx of
        (Some e, tx1) \<Rightarrow> Some (Some e, tx1)
      | (None, tx1) \<Rightarrow>
          (case HeadSeq env bc tx1 of
             ((headSeq, ok, err), tx2) \<Rightarrow>
               (case err of
                  Some e \<Rightarrow> Some (Some e, tx2)
                | None \<Rightarrow>
                    if \<not> ok then Some (Some (ErrorString ''head block does not exist''), tx2)
                    else rebuildCorruptDB_loop env bc headSeq 0 tx2)))"

definition rebuildCorruptDB ::
  "('s, 'b) env \<Rightarrow> Blockchain \<Rightarrow> ('s, 'b) world \<Rightarrow> (error option \<times> ('s, 'b) world) option" where
  "rebuildCorruptDB env bc w = Update env (rebuildCorruptDB_body env bc) w"

subsection \<open>CheckDatabase\<close>

definition BlockchainVerifyTheadNum :: nat where
  "BlockchainVerifyTheadNum = 4"

definition verifyFunc ::
  "('s, 'b) env \<Rightarrow> Blockchain \<Rightarrow> 's \<Rightarrow> 'b SignedBlock \<Rightarrow> error option" where
  "verifyFunc env bc tx b =
     (case bc_VerifySignature env bc b of
        Some e \<Rightarrow> Some e
      | None \<Rightarrow> history_Verify env tx b)"

text \<open>
  The result of \<^verbatim>\<open>db.View\<close> is not looked at. The rebuild runs in a goroutine that
  sends its result on the channel \<^verbatim>\<open>errC\<close> (capacity 1) before \<^verbatim>\<open>wg.Done()\<close>;
  \<^verbatim>\<open>wg.Wait()\<close> returns after that, so the \<^verbatim>\<open>select\<close> reads the channel's content,
  modelled as a list, and takes \<^verbatim>\<open>default\<close> on an empty one.
\<close>

definition CheckDatabase ::
  "('s, 'b) env \<Rightarrow> byte list \<Rightarrow> ('s, 'b) world \<Rightarrow> (error option \<times> ('s, 'b) world) option" where
  "CheckDatabase env pubkey w =
     (case View env (\<lambda>tx _. (None, dbutil_Exists_BlocksBkt env tx)) False w of
        (_, blocksBktExist, w1) \<Rightarrow>
          if \<not> blocksBktExist then Some (None, w1)
          else
            (case NewBlockchain env pubkey w1 of
               (Inl e, w2) \<Rightarrow> Some (Some e, w2)
             | (Inr bc, w2) \<Rightarrow>
                 (case WalkChain env bc BlockchainVerifyTheadNum (verifyFunc env bc) w2 of
                    (None, w3) \<Rightarrow> Some (None, w3)
                  | (Some (ErrMissingSignature m), w3) \<Rightarrow>
                      Some (Some (ErrCorruptDB (ErrMissingSignature m)), w3)
                  | (Some (ErrHistoryDBCorrupted m), w3) \<Rightarrow>
                      (case rebuildCorruptDB env bc w3 of
                         None \<Rightarrow> None
                       | Some (err, w4) \<Rightarrow>
                           (case [err] of
                              e # _ \<Rightarrow> Some (e, w4)
                            | [] \<Rightarrow> Some (None, w4)))
                  | (Some e, w3) \<Rightarrow> Some (Some e, w3))))"

subsection \<open>crypto/sha1\<close>

text \<open>
  \<^verbatim>\<open>h := sha1.New(); io.Copy(h, fi); sum := h.Sum(nil)\<close> is the SHA-1 digest (FIPS 180-4)
  of the bytes copied: the message is padded to a multiple of 64 bytes, and each block
  of sixteen big-endian words is expanded to eighty words and run through eighty rounds.
  The expanded words are kept newest first while the schedule grows.
\<close>

type_synonym uint32 = "32 word"

definition rotl32 :: "nat \<Rightarrow> uint32 \<Rightarrow> uint32" where
  "rotl32 n x = push_bit n x OR drop_bit (32 - n) x"

definition putUint32 :: "uint32 \<Rightarrow> byte list" where
  "putUint32 x = [ucast (drop_bit 24 x), ucast (drop_bit 16 x), ucast (drop_bit 8 x), ucast x]"

definition putUint64 :: "uint64 \<Rightarrow> byte list" where
  "putUint64 x =
     [ucast (drop_bit 56 x), ucast (drop_bit 48 x), ucast (drop_bit 40 x), ucast (drop_bit 32 x),
      ucast (drop_bit 24 x), ucast (drop_bit 16 x), ucast (drop_bit 8 x), ucast x]"

definition sha1_pad :: "byte list \<Rightarrow> byte list" where
  "sha1_pad m =
     m @ [0x80] @ replicate ((119 - length m mod 64) mod 64) 0 @ putUint64 (of_nat (8 * length m))"

fun words32 :: "byte list \<Rightarrow> uint32 list" where
  "words32 (a # b # c # d # bs) =
     (push_bit 24 (ucast a) OR push_bit 16 (ucast b) OR push_bit 8 (ucast c) OR ucast d) # words32 bs"
| "words32 _ = []"

function blocks :: "byte list \<Rightarrow> byte list list" where
  "blocks bs = (if length bs < 64 then [] else take 64 bs # blocks (drop 64 bs))"
  by pat_completeness auto
termination
  by (relation "measure length") auto

declare blocks.simps [simp del]

definition sha1_schedule :: "uint32 list \<Rightarrow> uint32 list" where
  "sha1_schedule w16 =
     rev (foldl (\<lambda>r t. rotl32 1 (r ! 2 XOR r ! 7 XOR r ! 13 XOR r ! 15) # r) (rev w16) [16..<80])"

definition sha1_f :: "nat \<Rightarrow> uint32 \<Rightarrow> uint32 \<Rightarrow> uint32 \<Rightarrow> uint32" where
  "sha1_f t b c d =
     (if t < 20 then (b AND c) OR (NOT b AND d)
      else if t < 40 then b XOR c XOR d
      else if t < 60 then (b AND c) OR (b AND d) OR (c AND d)
      else b XOR c XOR d)"

definition sha1_k :: "nat \<Rightarrow> uint32" where
  "sha1_k t =
     (if t < 20 then 0x5A827999 else if t < 40 then 0x6ED9EBA1
      else if t < 60 then 0x8F1BBCDC else 0xCA62C1D6)"

type_synonym sha1_state = "uint32 \<times> uint32 \<times> uint32 \<times> uint32 \<times> uint32"

fun sha1_round :: "nat \<times> sha1_state \<Rightarrow> uint32 \<Rightarrow> nat \<times> sha1_state" where
  "sha1_round (t, a, b, c, d, e) w =
     (t + 1, rotl32 5 a + sha1_f t b c d + e + sha1_k t + w, a, rotl32 30 b, c, d)"

fun sha1_block :: "sha1_state \<Rightarrow> byte list \<Rightarrow> sha1_state" where
  "sha1_block (h0, h1, h2, h3, h4) blk =
     (case foldl sha1_round (0, h0, h1, h2, h3, h4) (sha1_schedule (words32 blk)) of
        (t, a, b, c, d, e) \<Rightarrow> (h0 + a, h1 + b, h2 + c, h3 + d, h4 + e))"

definition sha1_init :: sha1_state where
  "sha1_init = (0x67452301, 0xEFCDAB89, 0x98BADCFE, 0x10325476, 0xC3D2E1F0)"

definition sha1_Sum :: "byte list \<Rightarrow> byte list" where
  "sha1_Sum m =
     (case foldl sha1_block sha1_init (blocks (sha1_pad m)) of
        (h0, h1, h2, h3, h4) \<Rightarrow> concat (map putUint32 [h0, h1, h2, h3, h4]))"

subsection \<open>encoding/base64\<close>

text \<open>
  \<^verbatim>\<open>base64.RawStdEncoding\<close> is the standard alphabet of RFC 4648, which ends in \<open>+\<close> and
  \<open>/\<close>, without padding. \<^verbatim>\<open>EncodeToString\<close> packs three bytes into 24 bits and
  writes four characters; one or two bytes left over give two or three characters.
\<close>

definition encodeStd :: string where
  "encodeStd = ''ABCDEFGHIJKLMNOPQRSTUVWXYZabcdefghijklmnopqrstuvwxyz0123456789+/''"

definition encodeURL :: string where
  "encodeURL = ''ABCDEFGHIJKLMNOPQRSTUVWXYZabcdefghijklmnopqrstuvwxyz0123456789-_''"

fun EncodeToString :: "string \<Rightarrow> byte list \<Rightarrow> string" where
  "EncodeToString encode (a # b # c # src) =
     (let val = (push_bit 16 (ucast a) OR push_bit 8 (ucast b) OR ucast c :: uint32)
      in encode ! unat (drop_bit 18 val AND 0x3F) # encode ! unat (drop_bit 12 val AND 0x3F) #
         encode ! unat (drop_bit 6 val AND 0x3F) # encode ! unat (val AND 0x3F) #
         EncodeToString encode src)"
| "EncodeToString encode [a, b] =
     (let val = (push_bit 16 (ucast a) OR push_bit 8 (ucast b) :: uint32)
      in [encode ! unat (drop_bit 18 val AND 0x3F), encode ! unat (drop_bit 12 val AND 0x3F),
          encode ! unat (drop_bit 6 val AND 0x3F)])"
| "EncodeToString encode [a] =
     (let val = (push_bit 16 (ucast a) :: uint32)
      in [encode ! unat (drop_bit 18 val AND 0x3F), encode ! unat (drop_bit 12 val AND 0x3F)])"
| "EncodeToString encode [] = []"


definition RawStdEncoding_EncodeToString :: "byte list \<Rightarrow> string" where
  "RawStdEncoding_EncodeToString = EncodeToString encodeStd"

text \<open>
  The encoding the specification names: URL- and path-safe (the alphabet ending in
  \<open>-\<close> and \<open>_\<close>), without padding.
\<close>

definition spec_RawURLEncoding_EncodeToString :: "byte list \<Rightarrow> string" where
  "spec_RawURLEncoding_EncodeToString = EncodeToString encodeURL"

subsection \<open>path/filepath on Unix\<close>

text \<open>
  \<^verbatim>\<open>filepath.Split\<close> cuts after the last separator. \<^verbatim>\<open>filepath.Join\<close> drops leading
  empty elements, joins the rest with separators and cleans the result;
  \<^verbatim>\<open>filepath.Clean\<close> drops empty and \<open>.\<close> elements and cancels \<open>..\<close> against the
  element before it.
\<close>

definition filepath_Split :: "string \<Rightarrow> string \<times> string" where
  "filepath_Split path =
     (let file = rev (takeWhile (\<lambda>c. c \<noteq> CHR ''/'') (rev path))
      in (take (length path - length file) path, file))"

fun path_elements :: "string \<Rightarrow> string list" where
  "path_elements [] = [[]]"
| "path_elements (c # cs) =
     (if c = CHR ''/'' then [] # path_elements cs
      else (case path_elements cs of e # es \<Rightarrow> (c # e) # es | [] \<Rightarrow> [[c]]))"

fun strings_Join :: "string list \<Rightarrow> string \<Rightarrow> string" where
  "strings_Join [] sep = []"
| "strings_Join [e] sep = e"
| "strings_Join (e # es) sep = e @ sep @ strings_Join es sep"

definition Clean_step :: "bool \<Rightarrow> string list \<Rightarrow> string \<Rightarrow> string list" where
  "Clean_step rooted out e =
     (if e = [] \<or> e = ''.'' then out
      else if e = ''..'' then
        (if out \<noteq> [] \<and> last out \<noteq> ''..'' then butlast out
         else if \<not> rooted then out @ [''..'']
         else out)
      else out @ [e])"

definition filepath_Clean :: "string \<Rightarrow> string" where
  "filepath_Clean path =
     (if path = [] then ''.''
      else
        (let rooted = (hd path = CHR ''/'');
             out = foldl (Clean_step rooted) [] (path_elements path)
         in if rooted then CHR ''/'' # strings_Join out ''/''
            else if out = [] then ''.'' else strings_Join out ''/''))"

fun filepath_Join :: "string list \<Rightarrow> string" where
  "filepath_Join [] = []"
| "filepath_Join (e # es) =
     (if e = [] then filepath_Join es else filepath_Clean (strings_Join (e # es) ''/''))"

subsection \<open>Files and handles\<close>

text \<open>
  The operating system and the storage engine: a call fails when the environment says
  so or when the file is not there; \<^verbatim>\<open>os.Rename\<close> moves the content to the new name
  and leaves the file system as it was when it fails. An open file is its name and the
  content read from it.
\<close>

definition IsReadOnly :: "DB \<Rightarrow> ('s, 'b) world \<Rightarrow> bool \<times> ('s, 'b) world" where
  "IsReadOnly db w = (db_IsReadOnly db, emit EvIsReadOnly w)"

definition Path :: "DB \<Rightarrow> ('s, 'b) world \<Rightarrow> string \<times> ('s, 'b) world" where
  "Path db w = (db_Path db, emit EvPath w)"

definition Close :: "('s, 'b) env \<Rightarrow> DB \<Rightarrow> ('s, 'b) world \<Rightarrow> error option \<times> ('s, 'b) world" where
  "Close env db w = (db_Close_result env (store w), emit EvClose w)"

definition os_Open ::
  "('s, 'b) env \<Rightarrow> string \<Rightarrow> ('s, 'b) world \<Rightarrow> (error + string \<times> byte list) \<times> ('s, 'b) world" where
  "os_Open env name w =
     (case os_Open_fault env name of
        Some e \<Rightarrow> (Inl e, emit (EvOsOpen name) w)
      | None \<Rightarrow>
          (case files w name of
             None \<Rightarrow>
               (Inl (ErrorString (''open '' @ name @ '': no such file or directory'')),
                emit (EvOsOpen name) w)
           | Some data \<Rightarrow> (Inr (name, data), emit (EvOsOpen name) w)))"

definition io_Copy ::
  "('s, 'b) env \<Rightarrow> string \<times> byte list \<Rightarrow> ('s, 'b) world \<Rightarrow> (error + byte list) \<times> ('s, 'b) world" where
  "io_Copy env fi w =
     (case io_Copy_fault env (fst fi) of
        Some e \<Rightarrow> (Inl e, emit (EvIoCopy (fst fi)) w)
      | None \<Rightarrow> (Inr (snd fi), emit (EvIoCopy (fst fi)) w))"

definition file_Close :: "string \<times> byte list \<Rightarrow> ('s, 'b) world \<Rightarrow> ('s, 'b) world" where
  "file_Close fi w = emit (EvFileClose (fst fi)) w"

definition os_Rename ::
  "('s, 'b) env \<Rightarrow> string \<Rightarrow> string \<Rightarrow> ('s, 'b) world \<Rightarrow> error option \<times> ('s, 'b) world" where
  "os_Rename env oldpath newpath w =
     (case os_Rename_fault env oldpath newpath of
        Some e \<Rightarrow> (Some e, emit (EvRename oldpath newpath) w)
      | None \<Rightarrow>
          (case files w oldpath of
             None \<Rightarrow>
               (Some (ErrorString (''rename '' @ oldpath @ '' '' @ newpath @ '': no such file or directory'')),
                emit (EvRename oldpath newpath) w)
           | Some data \<Rightarrow>
               (None,
                emit (EvRename oldpath newpath)
                  (w\<lparr>files := (files w)(oldpath := None, newpath \<mapsto> data)\<rparr>))))"

definition bolt_Open ::
  "('s, 'b) env \<Rightarrow> string \<Rightarrow> nat \<Rightarrow> bolt_Options \<Rightarrow> ('s, 'b) world \<Rightarrow> (error + DB) \<times> ('s, 'b) world" where
  "bolt_Open env path mode options w =
     (case bolt_Open_result env (files w) path mode options of
        Inl e \<Rightarrow> (Inl e, emit (EvBoltOpen path mode options) w)
      | Inr (fs, s) \<Rightarrow>
          (Inr \<lparr>db_Path = path, db_IsReadOnly = ReadOnly options\<rparr>,
           emit (EvBoltOpen path mode options) (w\<lparr>files := fs, store := s\<rparr>)))"

subsection \<open>shaFileID, makeCorruptDBPath, moveCorruptDB\<close>

text \<open>
  \<^verbatim>\<open>sum := h.Sum(nil); encodedSum := base64.RawStdEncoding.EncodeToString(sum[:8])\<close>;
  the deferred \<^verbatim>\<open>fi.Close()\<close> runs on every return after the file was opened.
\<close>

definition encodedSum :: "byte list \<Rightarrow> string" where
  "encodedSum data = RawStdEncoding_EncodeToString (take 8 (sha1_Sum data))"

definition shaFileID ::
  "('s, 'b) env \<Rightarrow> string \<Rightarrow> ('s, 'b) world \<Rightarrow> (error + string) \<times> ('s, 'b) world" where
  "shaFileID env dbPath w =
     (case os_Open env dbPath w of
        (Inl e, w1) \<Rightarrow> (Inl e, w1)
      | (Inr fi, w1) \<Rightarrow>
          (case io_Copy env fi w1 of
             (Inl e, w2) \<Rightarrow> (Inl e, file_Close fi w2)
           | (Inr h, w2) \<Rightarrow> (Inr (encodedSum h), file_Close fi w2)))"

text \<open>
  \<^verbatim>\<open>dbDir, dbFile := filepath.Split(dbPath)\<close>,
  \<^verbatim>\<open>newDBFile := fmt.Sprintf("%s.corrupt.%s", dbFile, dbFileHash)\<close>,
  \<^verbatim>\<open>newDBPath := filepath.Join(dbDir, newDBFile)\<close>.
\<close>

definition newDBFile :: "string \<Rightarrow> string \<Rightarrow> string" where
  "newDBFile dbFile dbFileHash = dbFile @ ''.corrupt.'' @ dbFileHash"

definition newDBPath :: "string \<Rightarrow> string \<Rightarrow> string" where
  "newDBPath dbPath dbFileHash =
     (case filepath_Split dbPath of
        (dbDir, dbFile) \<Rightarrow> filepath_Join [dbDir, newDBFile dbFile dbFileHash])"

definition makeCorruptDBPath ::
  "('s, 'b) env \<Rightarrow> string \<Rightarrow> ('s, 'b) world \<Rightarrow> (error + string) \<times> ('s, 'b) world" where
  "makeCorruptDBPath env dbPath w =
     (case shaFileID env dbPath w of
        (Inl e, w1) \<Rightarrow> (Inl e, w1)
      | (Inr dbFileHash, w1) \<Rightarrow> (Inr (newDBPath dbPath dbFileHash), w1))"

definition moveCorruptDB ::
  "('s, 'b) env \<Rightarrow> string \<Rightarrow> ('s, 'b) world \<Rightarrow> (error + string) \<times> ('s, 'b) world" where
  "moveCorruptDB env dbPath w =
     (case makeCorruptDBPath env dbPath w of
        (Inl e, w1) \<Rightarrow> (Inl e, w1)
      | (Inr newPath, w1) \<Rightarrow>
          (case os_Rename env dbPath newPath w1 of
             (Some e, w2) \<Rightarrow> (Inl e, w2)
           | (None, w2) \<Rightarrow> (Inr newPath, w2)))"

subsection \<open>OpenDB, handleCorruptDB, ResetCorruptDB\<close>

text \<open>
  \<^verbatim>\<open>bolt.Open(dbFile, 0600, &bolt.Options{Timeout: 500 * time.Millisecond, ReadOnly: readOnly})\<close>;
  the timeout is counted in milliseconds and \<open>0600\<close> is 384.
\<close>

definition OpenDB ::
  "('s, 'b) env \<Rightarrow> string \<Rightarrow> bool \<Rightarrow> ('s, 'b) world \<Rightarrow> (error + DB) \<times> ('s, 'b) world" where
  "OpenDB env dbFile readOnly w =
     (case bolt_Open env dbFile 384 \<lparr>Timeout = 500, ReadOnly = readOnly\<rparr> w of
        (Inl e, w1) \<Rightarrow> (Inl (ErrorString (''Open boltdb failed, '' @ Error e)), w1)
      | (Inr db, w1) \<Rightarrow> (Inr db, w1))"

definition handleCorruptDB ::
  "('s, 'b) env \<Rightarrow> DB \<Rightarrow> ('s, 'b) world \<Rightarrow> (error + DB) \<times> ('s, 'b) world" where
  "handleCorruptDB env db w =
     (case IsReadOnly db w of
        (dbReadOnly, w1) \<Rightarrow>
          (case Path db w1 of
             (dbPath, w2) \<Rightarrow>
               (case Close env db w2 of
                  (Some e, w3) \<Rightarrow> (Inl (ErrorString (''Failed to close db: '' @ Error e)), w3)
                | (None, w3) \<Rightarrow>
                    (case moveCorruptDB env dbPath w3 of
                       (Inl e, w4) \<Rightarrow>
                         (Inl (ErrorString (''Failed to copy corrupted db: '' @ Error e)), w4)
                     | (Inr corruptDBPath, w4) \<Rightarrow> OpenDB env dbPath dbReadOnly w4))))"

text \<open>
  \<^verbatim>\<open>ResetCorruptDB\<close> returns a handle or an error, never both; it returns when
  \<^verbatim>\<open>CheckDatabase\<close> does.
\<close>

definition ResetCorruptDB ::
  "('s, 'b) env \<Rightarrow> DB \<Rightarrow> byte list \<Rightarrow> ('s, 'b) world \<Rightarrow> ((error + DB) \<times> ('s, 'b) world) option" where
  "ResetCorruptDB env db pubkey w =
     (case CheckDatabase env pubkey w of
        None \<Rightarrow> None
      | Some (err, w1) \<Rightarrow>
          Some (case err of
                  None \<Rightarrow> (Inr db, w1)
                | Some (ErrCorruptDB e) \<Rightarrow> handleCorruptDB env db w1
                | Some e \<Rightarrow> (Inl e, w1)))"

declare rebuildCorruptDB_loop.simps [code]

subsection \<open>The rebuild as the specification words it\<close>





subsection \<open>The state of a check when the walk returns\<close>

text \<open>
  \<open>reaches_walk\<close>: the read transaction starts, the blocks bucket exists and the
  blockchain is built, so that \<^verbatim>\<open>CheckDatabase\<close> gets as far as \<^verbatim>\<open>bc.WalkChain\<close>;
  \<open>walk_result\<close> is the error the walk returns and \<open>after_walk\<close> the world at that
  moment.
\<close>

definition reaches_walk :: "('s, 'b) env \<Rightarrow> byte list \<Rightarrow> ('s, 'b) world \<Rightarrow> bool" where
  "reaches_walk env pubkey w \<longleftrightarrow>
     db_begin_read env (store w) = None \<and> dbutil_Exists_BlocksBkt env (store w) \<and>
     fst (NewBlockchain_result env pubkey (store w)) = None"

definition before_walk :: "('s, 'b) env \<Rightarrow> byte list \<Rightarrow> ('s, 'b) world \<Rightarrow> ('s, 'b) world" where
  "before_walk env pubkey w =
     emit EvNewBlockchain ((emit EvView w)\<lparr>store := snd (NewBlockchain_result env pubkey (store w))\<rparr>)"

definition walk_result :: "('s, 'b) env \<Rightarrow> byte list \<Rightarrow> ('s, 'b) world \<Rightarrow> error option" where
  "walk_result env pubkey w =
     bc_WalkChain env \<lparr>cfg_Pubkey = pubkey\<rparr> BlockchainVerifyTheadNum
       (verifyFunc env \<lparr>cfg_Pubkey = pubkey\<rparr>) (store (before_walk env pubkey w))"

definition after_walk :: "('s, 'b) env \<Rightarrow> byte list \<Rightarrow> ('s, 'b) world \<Rightarrow> ('s, 'b) world" where
  "after_walk env pubkey w = emit (EvWalkChain BlockchainVerifyTheadNum) (before_walk env pubkey w)"

subsection \<open>A small store to run the functions on\<close>

text \<open>
  A chain whose block at sequence \<open>i\<close> has body \<open>i\<close>, with head \<open>head\<close>; the index is
  the list of the block bodies parsed so far. The walk returns \<open>walk\<close>, the \<open>k\<close>-th
  poll of \<^verbatim>\<open>quit\<close> returns \<open>q k\<close>, and no call fails; opening a store where no
  file is creates an empty file and an empty index.
\<close>

definition example_env ::
  "uint64 \<Rightarrow> error option \<Rightarrow> (nat \<Rightarrow> bool) \<Rightarrow> (uint64 list, uint64) env" where
  "example_env head walk q =
     \<lparr>quit_closed = q,
      db_begin_read = (\<lambda>_. None),
      db_begin_write = (\<lambda>_. None),
      db_commit = (\<lambda>_. None),
      dbutil_Exists_BlocksBkt = (\<lambda>_. True),
      NewBlockchain_result = (\<lambda>_ s. (None, s)),
      bc_WalkChain = (\<lambda>_ _ _ _. walk),
      bc_VerifySignature = (\<lambda>_ _. None),
      bc_HeadSeq = (\<lambda>_ _. (head, True, None)),
      bc_GetSignedBlockBySeq = (\<lambda>_ _ i. Inr \<lparr>Block = i, Sig = []\<rparr>),
      history_Verify = (\<lambda>_ _. None),
      history_Erase = (\<lambda>_. Inr []),
      history_ParseBlock = (\<lambda>s b. Inr (s @ [b])),
      db_Close_result = (\<lambda>_. None),
      os_Open_fault = (\<lambda>_. None),
      io_Copy_fault = (\<lambda>_. None),
      os_Rename_fault = (\<lambda>_ _. None),
      bolt_Open_result = (\<lambda>fs path mode opts. Inr (if path \<in> dom fs then fs else fs(path \<mapsto> []), []))\<rparr>"

definition example_world :: "uint64 list \<Rightarrow> (uint64 list, uint64) world" where
  "example_world idx = \<lparr>store = idx, files = Map.empty, polls = 0, trace = []\<rparr>"

subsection \<open>A store file to quarantine\<close>

definition example_db :: DB where
  "example_db = \<lparr>db_Path = ''/data/blockchain.db'', db_IsReadOnly = False\<rparr>"

definition example_files :: "byte list \<Rightarrow> (uint64 list, uint64) world" where
  "example_files data =
     \<lparr>store = [7], files = [''/data/blockchain.db'' \<mapsto> data], polls = 0, trace = []\<rparr>"

section \<open>Properties\<close>

subsection \<open>Fault tracker\<close>

lemma foldl_append_single: "foldl (\<lambda>seqs seq. seqs @ [seq]) acc ks = acc @ ks"
  by (induction ks arbitrary: acc) simp_all

lemma BlockSeqs_iff: "BlockSeqs cb seqs \<longleftrightarrow> distinct seqs \<and> set seqs = dom (v cb)"
  by (auto simp: BlockSeqs.simps map_range_def foldl_append_single)

lemma dom_foldl_Store: "dom (v (foldl Store cb seqs)) = dom (v cb) \<union> set seqs"
  by (induction seqs arbitrary: cb) (auto simp: Store_def)

text \<open>
  Claim C10. After any finite sequence of \<open>Store\<close> calls on a fresh tracker, \<open>BlockSeqs\<close>
  has a result, and every result lists exactly the stored sequence numbers, each once,
  whatever the order and however often a number was stored; on a fresh tracker the only
  result is the empty slice.
\<close>

theorem BlockSeqs_after_Stores:
  "(\<exists>out. BlockSeqs (foldl Store newCorruptedBlocks seqs) out) \<and>
   (\<forall>out. BlockSeqs (foldl Store newCorruptedBlocks seqs) out \<longrightarrow>
      distinct out \<and> set out = set seqs) \<and>
   (\<forall>out. BlockSeqs newCorruptedBlocks out \<longleftrightarrow> out = [])"
proof -
  have d: "dom (v (foldl Store newCorruptedBlocks seqs)) = set seqs"
    by (simp add: dom_foldl_Store newCorruptedBlocks_def)
  have ex: "\<exists>out. BlockSeqs (foldl Store newCorruptedBlocks seqs) out"
    by (rule exI [of _ "remdups seqs"]) (simp add: BlockSeqs_iff d)
  have every: "\<forall>out. BlockSeqs (foldl Store newCorruptedBlocks seqs) out \<longrightarrow>
      distinct out \<and> set out = set seqs"
    by (simp add: BlockSeqs_iff d)
  have fresh: "\<forall>out. BlockSeqs newCorruptedBlocks out \<longleftrightarrow> out = []"
    by (auto simp: BlockSeqs_iff newCorruptedBlocks_def)
  from ex every fresh show ?thesis
    by (intro conjI)
qed

theorem BlockSeqs_after_Stores_witness:
  "BlockSeqs (foldl Store newCorruptedBlocks [3, 5, 3]) [5, 3] \<and>
   distinct [5, 3 :: uint64] \<and> set [5, 3 :: uint64] = set [3, 5, 3]"
proof -
  have b: "BlockSeqs (foldl Store newCorruptedBlocks [3, 5, 3]) [5, 3]"
    by (auto simp: BlockSeqs_iff Store_def newCorruptedBlocks_def)
  from BlockSeqs_after_Stores [of "[3, 5, 3]"] b show ?thesis
    by blast
qed

subsection \<open>The rebuild loop\<close>











subsection \<open>CheckDatabase\<close>

lemma CheckDatabase_no_bucket:
  assumes "db_begin_read env (store w) \<noteq> None \<or> \<not> dbutil_Exists_BlocksBkt env (store w)"
  shows "CheckDatabase env pubkey w = Some (None, emit EvView w)"
  using assms by (auto simp: CheckDatabase_def View_def split: option.splits)

lemma CheckDatabase_after_walk:
  assumes "reaches_walk env pubkey w"
  shows "CheckDatabase env pubkey w =
     (case walk_result env pubkey w of
        None \<Rightarrow> Some (None, after_walk env pubkey w)
      | Some (ErrMissingSignature m) \<Rightarrow>
          Some (Some (ErrCorruptDB (ErrMissingSignature m)), after_walk env pubkey w)
      | Some (ErrHistoryDBCorrupted m) \<Rightarrow>
          rebuildCorruptDB env \<lparr>cfg_Pubkey = pubkey\<rparr> (after_walk env pubkey w)
      | Some (ErrCorruptDB e) \<Rightarrow> Some (Some (ErrCorruptDB e), after_walk env pubkey w)
      | Some (ErrorString m) \<Rightarrow> Some (Some (ErrorString m), after_walk env pubkey w))"
proof -
  obtain r s where nb: "NewBlockchain_result env pubkey (store w) = (r, s)"
    by (cases "NewBlockchain_result env pubkey (store w)")
  with assms have r: "r = None"
    by (simp add: reaches_walk_def)
  have v: "View env (\<lambda>tx _. (None, dbutil_Exists_BlocksBkt env tx)) False w = (None, True, emit EvView w)"
    using assms by (simp add: View_def reaches_walk_def)
  have n: "NewBlockchain env pubkey (emit EvView w) = (Inr \<lparr>cfg_Pubkey = pubkey\<rparr>, before_walk env pubkey w)"
    by (simp add: NewBlockchain_def before_walk_def emit_def nb r)
  have k: "WalkChain env \<lparr>cfg_Pubkey = pubkey\<rparr> BlockchainVerifyTheadNum
      (verifyFunc env \<lparr>cfg_Pubkey = pubkey\<rparr>) (before_walk env pubkey w) =
      (walk_result env pubkey w, after_walk env pubkey w)"
    by (simp add: WalkChain_def walk_result_def after_walk_def)
  show ?thesis
    by (simp add: CheckDatabase_def v n k split: option.splits error.splits prod.splits)
qed






text \<open>
  Claim C6. When the blocks bucket does not exist, \<^verbatim>\<open>CheckDatabase\<close> returns no error
  at once: the read transaction is the only call made, and the world is otherwise as
  before.
\<close>

theorem CheckDatabase_without_blocks_bucket:
  assumes "\<not> dbutil_Exists_BlocksBkt env (store w)"
  shows "CheckDatabase env pubkey w = Some (None, w\<lparr>trace := trace w @ [EvView]\<rparr>)"
  using CheckDatabase_no_bucket [of env w pubkey] assms by (simp add: emit_def)

theorem CheckDatabase_without_blocks_bucket_witness:
  "\<not> dbutil_Exists_BlocksBkt
       ((example_env 1 (Some (ErrMissingSignature ''no signature'')) (\<lambda>k. False))
          \<lparr>dbutil_Exists_BlocksBkt := (\<lambda>_. False)\<rparr>) (store (example_world [])) \<and>
   CheckDatabase
       ((example_env 1 (Some (ErrMissingSignature ''no signature'')) (\<lambda>k. False))
          \<lparr>dbutil_Exists_BlocksBkt := (\<lambda>_. False)\<rparr>) [] (example_world []) =
     Some (None, \<lparr>store = [], files = Map.empty, polls = 0, trace = [EvView]\<rparr>)"
proof -
  let ?env = "(example_env 1 (Some (ErrMissingSignature ''no signature'')) (\<lambda>k. False))
          \<lparr>dbutil_Exists_BlocksBkt := (\<lambda>_. False)\<rparr>"
  have h: "\<not> dbutil_Exists_BlocksBkt ?env (store (example_world []))"
    by simp
  from h CheckDatabase_without_blocks_bucket [OF h, of "[]"] show ?thesis
    by (simp add: example_world_def)
qed

text \<open>
  Claim C3 fails on the code. The result of \<^verbatim>\<open>db.View\<close> is dropped: when the read
  transaction cannot start, \<open>blocksBktExist\<close> keeps its initial \<open>False\<close> and
  \<^verbatim>\<open>CheckDatabase\<close> returns no error, here on a store whose blocks bucket exists and
  whose walk would have reported a missing signature.
\<close>

theorem CheckDatabase_masks_View_error:
  "CheckDatabase
     ((example_env 1 (Some (ErrMissingSignature ''no signature'')) (\<lambda>k. False))
        \<lparr>db_begin_read := (\<lambda>_. Some (ErrorString ''database not open''))\<rparr>) [] (example_world []) =
   Some (None, \<lparr>store = [], files = Map.empty, polls = 0, trace = [EvView]\<rparr>)"
  by (simp add: CheckDatabase_no_bucket example_world_def emit_def)

subsection \<open>SHA-1 of three one-byte files\<close>

text \<open>
  The digests of the files holding the single byte \<open>a\<close>, \<open>b\<close> or \<open>c\<close>, computed
  stage by stage: padding, the sixteen words, the schedule, the eighty rounds.
\<close>

lemma replicate_numeral_unfold: "replicate (numeral k) x = x # replicate (pred_numeral k) x"
  by (simp add: numeral_eq_Suc)

lemma sha1_blocks_a: "blocks (sha1_pad [97]) = [[97, 128, 0, 0, 0, 0, 0, 0, 0, 0, 0, 0, 0, 0, 0,
    0, 0, 0, 0, 0, 0, 0, 0, 0, 0, 0, 0, 0, 0, 0, 0, 0, 0, 0, 0, 0, 0, 0, 0, 0, 0, 0, 0, 0, 0, 0,
    0, 0, 0, 0, 0, 0, 0, 0, 0, 0, 0, 0, 0, 0, 0, 0, 0, 8]]"
  by (simp add: sha1_pad_def putUint64_def replicate_numeral_unfold blocks.simps)

lemma sha1_words_a: "words32 [97, 128, 0, 0, 0, 0, 0, 0, 0, 0, 0, 0, 0, 0, 0, 0, 0, 0, 0, 0, 0,
    0, 0, 0, 0, 0, 0, 0, 0, 0, 0, 0, 0, 0, 0, 0, 0, 0, 0, 0, 0, 0, 0, 0, 0, 0, 0, 0, 0, 0, 0, 0,
    0, 0, 0, 0, 0, 0, 0, 0, 0, 0, 0, 8] = [1635778560, 0, 0, 0, 0, 0, 0, 0, 0, 0, 0, 0, 0, 0, 0,
    8]"
  by simp

lemma sha1_schedule_a: "sha1_schedule [1635778560, 0, 0, 0, 0, 0, 0, 0, 0, 0, 0, 0, 0, 0, 0,
    8] = [1635778560, 0, 0, 0, 0, 0, 0, 0, 0, 0, 0, 0, 0, 0, 0, 8, 3271557120, 0, 16, 2248146945,
    0, 32, 201326595, 16, 2248147009, 402653190, 0, 128, 805306380, 80, 2650800391, 1610612776,
    2315255810, 512, 3221225584, 402653510, 2013266974, 2147483681, 402653190, 2112, 402653381,
    1280, 3758100601, 678, 2885681195, 8256, 402655050, 2550142087, 2751480302, 536, 2147483937,
    2013299806, 2550139991, 20992, 3221292974, 11040, 3087009444, 2147615777, 2550166695,
    2147565625, 1476664879, 9408, 4160750183, 2148026145, 939574615, 327680, 1080800, 2147657313,
    11180, 2113536, 477720, 1345304, 809627304, 138240, 2147557601, 1619286112, 1074550729,
    5375488, 1091021457, 2150313953]"
  by (simp add: sha1_schedule_def rotl32_def)

lemma sha1_rounds_a: "foldl sha1_round (0, 0x67452301, 0xEFCDAB89, 0x98BADCFE, 0x10325476,
    0xC3D2E1F0) [1635778560, 0, 0, 0, 0, 0, 0, 0, 0, 0, 0, 0, 0, 0, 0, 8, 3271557120, 0, 16,
    2248146945, 0, 32, 201326595, 16, 2248147009, 402653190, 0, 128, 805306380, 80, 2650800391,
    1610612776, 2315255810, 512, 3221225584, 402653510, 2013266974, 2147483681, 402653190, 2112,
    402653381, 1280, 3758100601, 678, 2885681195, 8256, 402655050, 2550142087, 2751480302, 536,
    2147483937, 2013299806, 2550139991, 20992, 3221292974, 11040, 3087009444, 2147615777,
    2550166695, 2147565625, 1476664879, 9408, 4160750183, 2148026145, 939574615, 327680, 1080800,
    2147657313, 11180, 2113536, 477720, 1345304, 809627304, 138240, 2147557601, 1619286112,
    1074550729, 5375488, 1091021457, 2150313953] = (80, 531808566, 181927027, 1218592990,
    2847446644, 1940096456)"
  by (simp add: rotl32_def sha1_f_def sha1_k_def)

lemma sha1_Sum_a: "sha1_Sum [97] = [134, 247, 228, 55, 250, 165, 167, 252, 225, 93, 29, 220, 185,
    234, 234, 234, 55, 118, 103, 184]"
proof -
  have blk: "sha1_block (0x67452301, 0xEFCDAB89, 0x98BADCFE, 0x10325476, 0xC3D2E1F0) [97, 128, 0,
    0, 0, 0, 0, 0, 0, 0, 0, 0, 0, 0, 0, 0, 0, 0, 0, 0, 0, 0, 0, 0, 0, 0, 0, 0, 0, 0, 0, 0, 0, 0,
    0, 0, 0, 0, 0, 0, 0, 0, 0, 0, 0, 0, 0, 0, 0, 0, 0, 0, 0, 0, 0, 0, 0, 0, 0, 0, 0, 0, 0,
    8] = (2264392759, 4205160444, 3780976092, 3119180522, 930506680)"
    unfolding sha1_block.simps sha1_words_a sha1_schedule_a sha1_rounds_a
    by simp
  show ?thesis
    unfolding sha1_Sum_def sha1_init_def sha1_blocks_a foldl.simps blk
    by (simp add: putUint32_def)
qed

lemma encodedSum_a: "encodedSum [97] = ''hvfkN/qlp/w''"
  by (simp add: encodedSum_def sha1_Sum_a RawStdEncoding_EncodeToString_def encodeStd_def)


lemma sha1_blocks_b: "blocks (sha1_pad [98]) = [[98, 128, 0, 0, 0, 0, 0, 0, 0, 0, 0, 0, 0, 0, 0,
    0, 0, 0, 0, 0, 0, 0, 0, 0, 0, 0, 0, 0, 0, 0, 0, 0, 0, 0, 0, 0, 0, 0, 0, 0, 0, 0, 0, 0, 0, 0,
    0, 0, 0, 0, 0, 0, 0, 0, 0, 0, 0, 0, 0, 0, 0, 0, 0, 8]]"
  by (simp add: sha1_pad_def putUint64_def replicate_numeral_unfold blocks.simps)

lemma sha1_words_b: "words32 [98, 128, 0, 0, 0, 0, 0, 0, 0, 0, 0, 0, 0, 0, 0, 0, 0, 0, 0, 0, 0,
    0, 0, 0, 0, 0, 0, 0, 0, 0, 0, 0, 0, 0, 0, 0, 0, 0, 0, 0, 0, 0, 0, 0, 0, 0, 0, 0, 0, 0, 0, 0,
    0, 0, 0, 0, 0, 0, 0, 0, 0, 0, 0, 8] = [1652555776, 0, 0, 0, 0, 0, 0, 0, 0, 0, 0, 0, 0, 0, 0,
    8]"
  by simp

lemma sha1_schedule_b: "sha1_schedule [1652555776, 0, 0, 0, 0, 0, 0, 0, 0, 0, 0, 0, 0, 0, 0,
    8] = [1652555776, 0, 0, 0, 0, 0, 0, 0, 0, 0, 0, 0, 0, 0, 0, 8, 3305111552, 0, 16, 2315255809,
    0, 32, 335544323, 16, 2315255873, 671088646, 0, 128, 1342177292, 80, 2717909255, 2684354600,
    2650800130, 512, 1073741937, 671088966, 2281702430, 2147483682, 671088646, 2112, 671088835,
    1280, 536875130, 682, 4093640746, 8256, 671090514, 2818577540, 3959439841, 552, 2147483938,
    2281735262, 2818575412, 20992, 1073809299, 11232, 3355444913, 2147615778, 2818602276,
    2147565578, 3892584157, 10176, 134218324, 2148026146, 1208009573, 327680, 1080864,
    2147658338, 10996, 2113536, 479784, 1344552, 1346494944, 142336, 2147558370, 2693027984,
    3222025467, 5375488, 3238500115, 2150363106]"
  by (simp add: sha1_schedule_def rotl32_def)

lemma sha1_rounds_b: "foldl sha1_round (0, 0x67452301, 0xEFCDAB89, 0x98BADCFE, 0x10325476,
    0xC3D2E1F0) [1652555776, 0, 0, 0, 0, 0, 0, 0, 0, 0, 0, 0, 0, 0, 0, 8, 3305111552, 0, 16,
    2315255809, 0, 32, 335544323, 16, 2315255873, 671088646, 0, 128, 1342177292, 80, 2717909255,
    2684354600, 2650800130, 512, 1073741937, 671088966, 2281702430, 2147483682, 671088646, 2112,
    671088835, 1280, 536875130, 682, 4093640746, 8256, 671090514, 2818577540, 3959439841, 552,
    2147483938, 2281735262, 2818575412, 20992, 1073809299, 11232, 3355444913, 2147615778,
    2818602276, 2147565578, 3892584157, 10176, 134218324, 2148026146, 1208009573, 327680,
    1080864, 2147658338, 10996, 2113536, 479784, 1344552, 1346494944, 142336, 2147558370,
    2693027984, 3222025467, 5375488, 3238500115, 2150363106] = (80, 2190605405, 4160455140,
    825119487, 2632279111, 2238623144)"
  by (simp add: rotl32_def sha1_f_def sha1_k_def)

lemma sha1_Sum_b: "sha1_Sum [98] = [233, 215, 31, 94, 231, 201, 45, 109, 201, 233, 47, 253, 173,
    23, 184, 189, 73, 65, 143, 152]"
proof -
  have blk: "sha1_block (0x67452301, 0xEFCDAB89, 0x98BADCFE, 0x10325476, 0xC3D2E1F0) [98, 128, 0,
    0, 0, 0, 0, 0, 0, 0, 0, 0, 0, 0, 0, 0, 0, 0, 0, 0, 0, 0, 0, 0, 0, 0, 0, 0, 0, 0, 0, 0, 0, 0,
    0, 0, 0, 0, 0, 0, 0, 0, 0, 0, 0, 0, 0, 0, 0, 0, 0, 0, 0, 0, 0, 0, 0, 0, 0, 0, 0, 0, 0,
    8] = (3923189598, 3888721261, 3387502589, 2904012989, 1229033368)"
    unfolding sha1_block.simps sha1_words_b sha1_schedule_b sha1_rounds_b
    by simp
  show ?thesis
    unfolding sha1_Sum_def sha1_init_def sha1_blocks_b foldl.simps blk
    by (simp add: putUint32_def)
qed

lemma encodedSum_b: "encodedSum [98] = ''6dcfXufJLW0''"
  by (simp add: encodedSum_def sha1_Sum_b RawStdEncoding_EncodeToString_def encodeStd_def)










subsection \<open>The quarantine path\<close>

lemmas path_steps =
  newDBPath_def newDBFile_def filepath_Split_def filepath_Clean_def Clean_step_def

lemma newDBPath_a:
  "newDBPath ''/data/blockchain.db'' ''hvfkN/qlp/w'' = ''/data/blockchain.db.corrupt.hvfkN/qlp/w''"
  by (simp add: path_steps)

lemma newDBPath_b:
  "newDBPath ''/data/blockchain.db'' ''6dcfXufJLW0'' = ''/data/blockchain.db.corrupt.6dcfXufJLW0''"
  by (simp add: path_steps)


lemma shaFileID_reads:
  assumes "files w p = Some c" "os_Open_fault env p = None" "io_Copy_fault env p = None"
  shows "shaFileID env p w =
    (Inr (encodedSum c), w\<lparr>trace := trace w @ [EvOsOpen p, EvIoCopy p, EvFileClose p]\<rparr>)"
  using assms by (simp add: shaFileID_def os_Open_def io_Copy_def file_Close_def emit_def)

lemma makeCorruptDBPath_reads:
  assumes "files w p = Some c" "os_Open_fault env p = None" "io_Copy_fault env p = None"
  shows "makeCorruptDBPath env p w =
    (Inr (newDBPath p (encodedSum c)),
     w\<lparr>trace := trace w @ [EvOsOpen p, EvIoCopy p, EvFileClose p]\<rparr>)"
  using assms by (simp add: makeCorruptDBPath_def shaFileID_reads)

text \<open>
  Claim C4 fails on the code. \<^verbatim>\<open>shaFileID\<close> encodes with \<^verbatim>\<open>base64.RawStdEncoding\<close>,
  whose alphabet has \<open>+\<close> and \<open>/\<close>. For the store file that holds the single byte \<open>a\<close>
  the fingerprint is \<open>hvfkN/qlp/w\<close>, where the URL- and path-safe encoding of the same
  eight bytes is \<open>hvfkN_qlp_w\<close>; the quarantine path then lies two directories below
  \<open>/data/\<close>, with \<open>w\<close> as its file name.
\<close>

theorem shaFileID_fingerprint_has_separator:
  "fst (shaFileID (example_env 1 None (\<lambda>k. False)) ''/data/blockchain.db'' (example_files [0x61])) =
     Inr ''hvfkN/qlp/w'' \<and>
   spec_RawURLEncoding_EncodeToString (take 8 (sha1_Sum [0x61])) = ''hvfkN_qlp_w'' \<and>
   fst (makeCorruptDBPath (example_env 1 None (\<lambda>k. False)) ''/data/blockchain.db'' (example_files [0x61])) =
     Inr ''/data/blockchain.db.corrupt.hvfkN/qlp/w'' \<and>
   filepath_Split ''/data/blockchain.db'' = (''/data/'', ''blockchain.db'') \<and>
   filepath_Split ''/data/blockchain.db.corrupt.hvfkN/qlp/w'' =
     (''/data/blockchain.db.corrupt.hvfkN/qlp/'', ''w'')"
proof -
  let ?e = "example_env 1 None (\<lambda>k. False)"
  have r: "files (example_files [0x61]) ''/data/blockchain.db'' = Some [0x61]"
    "os_Open_fault ?e ''/data/blockchain.db'' = None" "io_Copy_fault ?e ''/data/blockchain.db'' = None"
    by (simp_all add: example_files_def example_env_def)
  have 1: "fst (shaFileID ?e ''/data/blockchain.db'' (example_files [0x61])) = Inr ''hvfkN/qlp/w''"
    by (simp add: shaFileID_reads [OF r] encodedSum_a)
  have 2: "spec_RawURLEncoding_EncodeToString (take 8 (sha1_Sum [0x61])) = ''hvfkN_qlp_w''"
    by (simp add: spec_RawURLEncoding_EncodeToString_def sha1_Sum_a encodeURL_def)
  have 3: "fst (makeCorruptDBPath ?e ''/data/blockchain.db'' (example_files [0x61])) =
      Inr ''/data/blockchain.db.corrupt.hvfkN/qlp/w''"
    by (simp add: makeCorruptDBPath_reads [OF r] encodedSum_a newDBPath_a)
  have 4: "filepath_Split ''/data/blockchain.db'' = (''/data/'', ''blockchain.db'')"
    "filepath_Split ''/data/blockchain.db.corrupt.hvfkN/qlp/w'' =
      (''/data/blockchain.db.corrupt.hvfkN/qlp/'', ''w'')"
    by (simp_all add: filepath_Split_def)
  from 1 2 3 4 show ?thesis
    by (intro conjI)
qed

subsection \<open>handleCorruptDB\<close>

lemma handleCorruptDB_Close_fails:
  assumes "db_Close_result env (store w) = Some e"
  shows "handleCorruptDB env db w =
    (Inl (ErrorString (''Failed to close db: '' @ Error e)),
     w\<lparr>trace := trace w @ [EvIsReadOnly, EvPath, EvClose]\<rparr>)"
  using assms by (simp add: handleCorruptDB_def IsReadOnly_def Path_def Close_def emit_def)

lemma moveCorruptDB_reads:
  assumes "files w p = Some c" "os_Open_fault env p = None" "io_Copy_fault env p = None"
  shows "moveCorruptDB env p w =
    (case os_Rename_fault env p (newDBPath p (encodedSum c)) of
       Some e \<Rightarrow>
         (Inl e, w\<lparr>trace := trace w @ [EvOsOpen p, EvIoCopy p, EvFileClose p,
            EvRename p (newDBPath p (encodedSum c))]\<rparr>)
     | None \<Rightarrow>
         (Inr (newDBPath p (encodedSum c)),
          w\<lparr>files := (files w)(p := None, newDBPath p (encodedSum c) \<mapsto> c),
            trace := trace w @ [EvOsOpen p, EvIoCopy p, EvFileClose p,
              EvRename p (newDBPath p (encodedSum c))]\<rparr>))"
  using assms
  by (simp add: moveCorruptDB_def makeCorruptDBPath_def shaFileID_reads os_Rename_def emit_def
      split: option.splits)

text \<open>
  Claim C7. \<^verbatim>\<open>handleCorruptDB\<close> reads the handle's mode and path and closes the handle;
  when the close fails it stops there. Otherwise it reads the file for its fingerprint
  and renames it to the quarantine path; when the rename fails it stops, the files as
  they were and no store opened. Otherwise it opens a store at the original path,
  which the rename has left, with the original mode, and returns that handle or the
  error of the open.
\<close>

theorem handleCorruptDB_steps:
  fixes env :: "('s, 'b) env" and db :: DB and w :: "('s, 'b) world"
  defines "p \<equiv> db_Path db" and "ro \<equiv> db_IsReadOnly db"
    and "closed \<equiv> trace w @ [EvIsReadOnly, EvPath, EvClose]"
  shows
    "(\<forall>e. db_Close_result env (store w) = Some e \<longrightarrow>
        handleCorruptDB env db w =
          (Inl (ErrorString (''Failed to close db: '' @ Error e)), w\<lparr>trace := closed\<rparr>)) \<and>
     (\<forall>c q. db_Close_result env (store w) = None \<longrightarrow> files w p = Some c \<longrightarrow>
        os_Open_fault env p = None \<longrightarrow> io_Copy_fault env p = None \<longrightarrow>
        q = newDBPath p (encodedSum c) \<longrightarrow>
        (\<forall>e. os_Rename_fault env p q = Some e \<longrightarrow>
           handleCorruptDB env db w =
             (Inl (ErrorString (''Failed to copy corrupted db: '' @ Error e)),
              w\<lparr>trace := closed @ [EvOsOpen p, EvIoCopy p, EvFileClose p, EvRename p q]\<rparr>)) \<and>
        (os_Rename_fault env p q = None \<longrightarrow>
           (\<forall>fs s. bolt_Open_result env ((files w)(p := None, q \<mapsto> c)) p 384
                      \<lparr>Timeout = 500, ReadOnly = ro\<rparr> = Inr (fs, s) \<longrightarrow>
              handleCorruptDB env db w =
                (Inr \<lparr>db_Path = p, db_IsReadOnly = ro\<rparr>,
                 w\<lparr>store := s, files := fs,
                   trace := closed @ [EvOsOpen p, EvIoCopy p, EvFileClose p, EvRename p q,
                     EvBoltOpen p 384 \<lparr>Timeout = 500, ReadOnly = ro\<rparr>]\<rparr>)) \<and>
           (\<forall>e. bolt_Open_result env ((files w)(p := None, q \<mapsto> c)) p 384
                    \<lparr>Timeout = 500, ReadOnly = ro\<rparr> = Inl e \<longrightarrow>
              handleCorruptDB env db w =
                (Inl (ErrorString (''Open boltdb failed, '' @ Error e)),
                 w\<lparr>files := (files w)(p := None, q \<mapsto> c),
                   trace := closed @ [EvOsOpen p, EvIoCopy p, EvFileClose p, EvRename p q,
                     EvBoltOpen p 384 \<lparr>Timeout = 500, ReadOnly = ro\<rparr>]\<rparr>))))"
proof (intro conjI allI impI)
  fix e assume "db_Close_result env (store w) = Some e"
  then show "handleCorruptDB env db w =
      (Inl (ErrorString (''Failed to close db: '' @ Error e)), w\<lparr>trace := closed\<rparr>)"
    by (simp add: handleCorruptDB_Close_fails closed_def)
next
  fix c q e
  assume a: "db_Close_result env (store w) = None" "files w p = Some c"
    "os_Open_fault env p = None" "io_Copy_fault env p = None" "q = newDBPath p (encodedSum c)"
    "os_Rename_fault env p q = Some e"
  let ?w3 = "w\<lparr>trace := closed\<rparr>"
  have m: "moveCorruptDB env p ?w3 =
      (Inl e, ?w3\<lparr>trace := trace ?w3 @ [EvOsOpen p, EvIoCopy p, EvFileClose p, EvRename p q]\<rparr>)"
    using a by (simp add: moveCorruptDB_reads)
  show "handleCorruptDB env db w =
      (Inl (ErrorString (''Failed to copy corrupted db: '' @ Error e)),
       w\<lparr>trace := closed @ [EvOsOpen p, EvIoCopy p, EvFileClose p, EvRename p q]\<rparr>)"
    using a(1) m
    by (simp add: handleCorruptDB_def IsReadOnly_def Path_def Close_def emit_def closed_def p_def)
next
  fix c q fs s
  assume a: "db_Close_result env (store w) = None" "files w p = Some c"
    "os_Open_fault env p = None" "io_Copy_fault env p = None" "q = newDBPath p (encodedSum c)"
    "os_Rename_fault env p q = None"
    "bolt_Open_result env ((files w)(p := None, q \<mapsto> c)) p 384 \<lparr>Timeout = 500, ReadOnly = ro\<rparr> = Inr (fs, s)"
  let ?w3 = "w\<lparr>trace := closed\<rparr>"
  have m: "moveCorruptDB env p ?w3 =
      (Inr q, ?w3\<lparr>files := (files w)(p := None, q \<mapsto> c),
         trace := trace ?w3 @ [EvOsOpen p, EvIoCopy p, EvFileClose p, EvRename p q]\<rparr>)"
    using a by (simp add: moveCorruptDB_reads)
  show "handleCorruptDB env db w =
      (Inr \<lparr>db_Path = p, db_IsReadOnly = ro\<rparr>,
       w\<lparr>store := s, files := fs,
         trace := closed @ [EvOsOpen p, EvIoCopy p, EvFileClose p, EvRename p q,
           EvBoltOpen p 384 \<lparr>Timeout = 500, ReadOnly = ro\<rparr>]\<rparr>)"
    using a(1,7) m
    by (simp add: handleCorruptDB_def IsReadOnly_def Path_def Close_def OpenDB_def bolt_Open_def
        emit_def closed_def p_def ro_def)
next
  fix c q e
  assume a: "db_Close_result env (store w) = None" "files w p = Some c"
    "os_Open_fault env p = None" "io_Copy_fault env p = None" "q = newDBPath p (encodedSum c)"
    "os_Rename_fault env p q = None"
    "bolt_Open_result env ((files w)(p := None, q \<mapsto> c)) p 384 \<lparr>Timeout = 500, ReadOnly = ro\<rparr> = Inl e"
  let ?w3 = "w\<lparr>trace := closed\<rparr>"
  have m: "moveCorruptDB env p ?w3 =
      (Inr q, ?w3\<lparr>files := (files w)(p := None, q \<mapsto> c),
         trace := trace ?w3 @ [EvOsOpen p, EvIoCopy p, EvFileClose p, EvRename p q]\<rparr>)"
    using a by (simp add: moveCorruptDB_reads)
  show "handleCorruptDB env db w =
      (Inl (ErrorString (''Open boltdb failed, '' @ Error e)),
       w\<lparr>files := (files w)(p := None, q \<mapsto> c),
         trace := closed @ [EvOsOpen p, EvIoCopy p, EvFileClose p, EvRename p q,
           EvBoltOpen p 384 \<lparr>Timeout = 500, ReadOnly = ro\<rparr>]\<rparr>)"
    using a(1,7) m
    by (simp add: handleCorruptDB_def IsReadOnly_def Path_def Close_def OpenDB_def bolt_Open_def
        emit_def closed_def p_def ro_def)
qed

theorem handleCorruptDB_steps_witness:
  "handleCorruptDB
     ((example_env 1 None (\<lambda>k. False))\<lparr>db_Close_result := (\<lambda>_. Some (ErrorString ''sync failed''))\<rparr>)
     example_db (example_files [98]) =
     (Inl (ErrorString ''Failed to close db: sync failed''),
      \<lparr>store = [7], files = [''/data/blockchain.db'' \<mapsto> [98]], polls = 0,
       trace = [EvIsReadOnly, EvPath, EvClose]\<rparr>) \<and>
   handleCorruptDB
     ((example_env 1 None (\<lambda>k. False))\<lparr>os_Rename_fault := (\<lambda>_ _. Some (ErrorString ''permission denied''))\<rparr>)
     example_db (example_files [98]) =
     (Inl (ErrorString ''Failed to copy corrupted db: permission denied''),
      \<lparr>store = [7], files = [''/data/blockchain.db'' \<mapsto> [98]], polls = 0,
       trace = [EvIsReadOnly, EvPath, EvClose, EvOsOpen ''/data/blockchain.db'',
         EvIoCopy ''/data/blockchain.db'', EvFileClose ''/data/blockchain.db'',
         EvRename ''/data/blockchain.db'' ''/data/blockchain.db.corrupt.6dcfXufJLW0'']\<rparr>) \<and>
   handleCorruptDB (example_env 1 None (\<lambda>k. False)) example_db (example_files [98]) =
     (Inr \<lparr>db_Path = ''/data/blockchain.db'', db_IsReadOnly = False\<rparr>,
      \<lparr>store = [],
       files = [''/data/blockchain.db.corrupt.6dcfXufJLW0'' \<mapsto> [98], ''/data/blockchain.db'' \<mapsto> []],
       polls = 0,
       trace = [EvIsReadOnly, EvPath, EvClose, EvOsOpen ''/data/blockchain.db'',
         EvIoCopy ''/data/blockchain.db'', EvFileClose ''/data/blockchain.db'',
         EvRename ''/data/blockchain.db'' ''/data/blockchain.db.corrupt.6dcfXufJLW0'',
         EvBoltOpen ''/data/blockchain.db'' 384 \<lparr>Timeout = 500, ReadOnly = False\<rparr>]\<rparr>)"
proof -
  let ?e = "example_env 1 None (\<lambda>k. False)"
  let ?c = "?e\<lparr>db_Close_result := (\<lambda>_. Some (ErrorString ''sync failed''))\<rparr>"
  let ?r = "?e\<lparr>os_Rename_fault := (\<lambda>_ _. Some (ErrorString ''permission denied''))\<rparr>"
  let ?w = "example_files [98]"
  have q: "newDBPath (db_Path example_db) (encodedSum [98]) = ''/data/blockchain.db.corrupt.6dcfXufJLW0''"
    by (simp add: example_db_def encodedSum_b newDBPath_b)
  have f: "(files ?w)(''/data/blockchain.db'' := None, ''/data/blockchain.db.corrupt.6dcfXufJLW0'' \<mapsto> [98]) =
      [''/data/blockchain.db.corrupt.6dcfXufJLW0'' \<mapsto> [98]]"
    by (rule ext) (simp add: example_files_def)
  have 1: "handleCorruptDB ?c example_db ?w =
      (Inl (ErrorString ''Failed to close db: sync failed''),
       ?w\<lparr>trace := trace ?w @ [EvIsReadOnly, EvPath, EvClose]\<rparr>)"
    using handleCorruptDB_steps [of ?c ?w example_db] by (simp add: example_env_def)
  have 2: "handleCorruptDB ?r example_db ?w =
      (Inl (ErrorString ''Failed to copy corrupted db: permission denied''),
       ?w\<lparr>trace := (trace ?w @ [EvIsReadOnly, EvPath, EvClose]) @
         [EvOsOpen ''/data/blockchain.db'', EvIoCopy ''/data/blockchain.db'',
          EvFileClose ''/data/blockchain.db'',
          EvRename ''/data/blockchain.db'' ''/data/blockchain.db.corrupt.6dcfXufJLW0'']\<rparr>)"
    using handleCorruptDB_steps [of ?r ?w example_db] q
    by (simp add: example_env_def example_db_def example_files_def)
  have 3: "handleCorruptDB ?e example_db ?w =
      (Inr \<lparr>db_Path = ''/data/blockchain.db'', db_IsReadOnly = False\<rparr>,
       ?w\<lparr>store := [],
         files := [''/data/blockchain.db.corrupt.6dcfXufJLW0'' \<mapsto> [98], ''/data/blockchain.db'' \<mapsto> []],
         trace := (trace ?w @ [EvIsReadOnly, EvPath, EvClose]) @
           [EvOsOpen ''/data/blockchain.db'', EvIoCopy ''/data/blockchain.db'',
            EvFileClose ''/data/blockchain.db'',
            EvRename ''/data/blockchain.db'' ''/data/blockchain.db.corrupt.6dcfXufJLW0'',
            EvBoltOpen ''/data/blockchain.db'' 384 \<lparr>Timeout = 500, ReadOnly = False\<rparr>]\<rparr>)"
    using handleCorruptDB_steps [of ?e ?w example_db] q f
    by (simp add: example_env_def example_db_def example_files_def)
  from 1 2 3 show ?thesis
    by (simp add: example_files_def)
qed

subsection \<open>ResetCorruptDB\<close>

text \<open>
  Claim C8. \<^verbatim>\<open>ResetCorruptDB\<close> follows the result of \<^verbatim>\<open>CheckDatabase\<close>: with no error it
  returns the handle it was given, in the world the check left (nothing is closed,
  renamed or opened); with an error that is not an \<^verbatim>\<open>ErrCorruptDB\<close> it returns that
  error, again in the world the check left; with an \<^verbatim>\<open>ErrCorruptDB\<close>, and only then, it
  returns what \<^verbatim>\<open>handleCorruptDB\<close> returns.
\<close>

theorem ResetCorruptDB_follows_check:
  "(\<forall>w1. CheckDatabase env pubkey w = Some (None, w1) \<longrightarrow>
      ResetCorruptDB env db pubkey w = Some (Inr db, w1)) \<and>
   (\<forall>e w1. CheckDatabase env pubkey w = Some (Some e, w1) \<longrightarrow> (\<forall>c. e \<noteq> ErrCorruptDB c) \<longrightarrow>
      ResetCorruptDB env db pubkey w = Some (Inl e, w1)) \<and>
   (\<forall>c w1. CheckDatabase env pubkey w = Some (Some (ErrCorruptDB c), w1) \<longrightarrow>
      ResetCorruptDB env db pubkey w = Some (handleCorruptDB env db w1))"
proof (intro conjI allI impI)
  fix e w1
  assume "CheckDatabase env pubkey w = Some (Some e, w1)" and "\<forall>c. e \<noteq> ErrCorruptDB c"
  then show "ResetCorruptDB env db pubkey w = Some (Inl e, w1)"
    by (cases e) (simp_all add: ResetCorruptDB_def)
qed (simp_all add: ResetCorruptDB_def)

lemma CheckDatabase_example:
  "CheckDatabase (example_env 1 walk (\<lambda>k. False)) [] (example_files [98]) =
     (case walk of
        None \<Rightarrow> Some (None, after_walk (example_env 1 walk (\<lambda>k. False)) [] (example_files [98]))
      | Some (ErrMissingSignature m) \<Rightarrow>
          Some (Some (ErrCorruptDB (ErrMissingSignature m)),
            after_walk (example_env 1 walk (\<lambda>k. False)) [] (example_files [98]))
      | Some (ErrHistoryDBCorrupted m) \<Rightarrow>
          rebuildCorruptDB (example_env 1 walk (\<lambda>k. False)) \<lparr>cfg_Pubkey = []\<rparr>
            (after_walk (example_env 1 walk (\<lambda>k. False)) [] (example_files [98]))
      | Some (ErrCorruptDB e) \<Rightarrow>
          Some (Some (ErrCorruptDB e), after_walk (example_env 1 walk (\<lambda>k. False)) [] (example_files [98]))
      | Some (ErrorString m) \<Rightarrow>
          Some (Some (ErrorString m), after_walk (example_env 1 walk (\<lambda>k. False)) [] (example_files [98])))"
proof -
  have r: "reaches_walk (example_env 1 walk (\<lambda>k. False)) [] (example_files [98])"
    by (simp add: reaches_walk_def example_env_def)
  have k: "walk_result (example_env 1 walk (\<lambda>k. False)) [] (example_files [98]) = walk"
    by (simp add: walk_result_def example_env_def)
  show ?thesis
    by (simp add: CheckDatabase_after_walk [OF r] k)
qed

lemma after_walk_example:
  "after_walk (example_env 1 walk (\<lambda>k. False)) [] (example_files [98]) =
     \<lparr>store = [7], files = [''/data/blockchain.db'' \<mapsto> [98]], polls = 0,
      trace = [EvView, EvNewBlockchain, EvWalkChain 4]\<rparr>"
  by (simp add: after_walk_def before_walk_def emit_def example_files_def example_env_def
      BlockchainVerifyTheadNum_def)

theorem ResetCorruptDB_follows_check_witness:
  "CheckDatabase (example_env 1 None (\<lambda>k. False)) [] (example_files [98]) =
     Some (None, \<lparr>store = [7], files = [''/data/blockchain.db'' \<mapsto> [98]], polls = 0,
       trace = [EvView, EvNewBlockchain, EvWalkChain 4]\<rparr>) \<and>
   ResetCorruptDB (example_env 1 None (\<lambda>k. False)) example_db [] (example_files [98]) =
     Some (Inr example_db, \<lparr>store = [7], files = [''/data/blockchain.db'' \<mapsto> [98]], polls = 0,
       trace = [EvView, EvNewBlockchain, EvWalkChain 4]\<rparr>) \<and>
   CheckDatabase (example_env 1 (Some (ErrorString ''unexpected EOF'')) (\<lambda>k. False)) [] (example_files [98]) =
     Some (Some (ErrorString ''unexpected EOF''),
       \<lparr>store = [7], files = [''/data/blockchain.db'' \<mapsto> [98]], polls = 0,
        trace = [EvView, EvNewBlockchain, EvWalkChain 4]\<rparr>) \<and>
   ResetCorruptDB (example_env 1 (Some (ErrorString ''unexpected EOF'')) (\<lambda>k. False)) example_db []
       (example_files [98]) =
     Some (Inl (ErrorString ''unexpected EOF''),
       \<lparr>store = [7], files = [''/data/blockchain.db'' \<mapsto> [98]], polls = 0,
        trace = [EvView, EvNewBlockchain, EvWalkChain 4]\<rparr>) \<and>
   CheckDatabase (example_env 1 (Some (ErrMissingSignature ''no signature'')) (\<lambda>k. False)) []
       (example_files [98]) =
     Some (Some (ErrCorruptDB (ErrMissingSignature ''no signature'')),
       \<lparr>store = [7], files = [''/data/blockchain.db'' \<mapsto> [98]], polls = 0,
        trace = [EvView, EvNewBlockchain, EvWalkChain 4]\<rparr>) \<and>
   ResetCorruptDB (example_env 1 (Some (ErrMissingSignature ''no signature'')) (\<lambda>k. False)) example_db []
       (example_files [98]) =
     Some (handleCorruptDB (example_env 1 (Some (ErrMissingSignature ''no signature'')) (\<lambda>k. False))
       example_db
       \<lparr>store = [7], files = [''/data/blockchain.db'' \<mapsto> [98]], polls = 0,
        trace = [EvView, EvNewBlockchain, EvWalkChain 4]\<rparr>)"
proof -
  let ?w = "example_files [98]"
  let ?w3 = "\<lparr>store = [7], files = [''/data/blockchain.db'' \<mapsto> [98]], polls = 0,
        trace = [EvView, EvNewBlockchain, EvWalkChain 4]\<rparr> :: (uint64 list, uint64) world"
  let ?e0 = "example_env 1 None (\<lambda>k. False)"
  let ?e1 = "example_env 1 (Some (ErrorString ''unexpected EOF'')) (\<lambda>k. False)"
  let ?e2 = "example_env 1 (Some (ErrMissingSignature ''no signature'')) (\<lambda>k. False)"
  have c0: "CheckDatabase ?e0 [] ?w = Some (None, ?w3)"
    and c1: "CheckDatabase ?e1 [] ?w = Some (Some (ErrorString ''unexpected EOF''), ?w3)"
    and c2: "CheckDatabase ?e2 [] ?w =
      Some (Some (ErrCorruptDB (ErrMissingSignature ''no signature'')), ?w3)"
    by (simp_all add: CheckDatabase_example after_walk_example)
  from ResetCorruptDB_follows_check [of ?e0 "[]" ?w example_db] c0
  have r0: "ResetCorruptDB ?e0 example_db [] ?w = Some (Inr example_db, ?w3)"
    by simp
  from ResetCorruptDB_follows_check [of ?e1 "[]" ?w example_db] c1
  have r1: "ResetCorruptDB ?e1 example_db [] ?w = Some (Inl (ErrorString ''unexpected EOF''), ?w3)"
    by simp
  from ResetCorruptDB_follows_check [of ?e2 "[]" ?w example_db] c2
  have r2: "ResetCorruptDB ?e2 example_db [] ?w = Some (handleCorruptDB ?e2 example_db ?w3)"
    by simp
  from c0 r0 c1 r1 c2 r2 show ?thesis
    by (intro conjI)
qed

subsection \<open>The unpadded encoding is one-to-one on eight bytes\<close>











subsection \<open>The quarantine path tells fingerprints apart\<close>















end
